theory Spec2Isabelle
  imports Main "HOL-Library.Sublist"
begin

section \<open>Python values, runtime types and annotations\<close>

text \<open>
  The values a request can carry: what a decoded JSON body holds, the strings of the query
  string and of a form, the values of the route converters, and uploaded files. A float is
  kept by the bit pattern of its double, a dict by its items (keys distinct), an uploaded
  file by the lines of its stream. \<open>pytype v\<close> is Python's \<open>type(v)\<close>: the exact class,
  so \<open>True\<close> has type \<open>bool\<close> and not \<open>int\<close>.
\<close>

datatype pyclass = TNone | TBool | TInt | TFloat | TStr | TBytes | TList | TDict | TFile

datatype pyval =
    PNone
  | PBool bool
  | PInt int
  | PFloat int
  | PStr string
  | PBytes string
  | PList "pyval list"
  | PDict "(string \<times> pyval) list"
  | PFile "string list"

fun pytype :: "pyval \<Rightarrow> pyclass" where
  "pytype PNone = TNone"
| "pytype (PBool b) = TBool"
| "pytype (PInt i) = TInt"
| "pytype (PFloat x) = TFloat"
| "pytype (PStr s) = TStr"
| "pytype (PBytes s) = TBytes"
| "pytype (PList xs) = TList"
| "pytype (PDict kvs) = TDict"
| "pytype (PFile ls) = TFile"

text \<open>Python's truth value of an object, as \<open>request.json or {}\<close> reads it.\<close>

fun truthy :: "pyval \<Rightarrow> bool" where
  "truthy PNone = False"
| "truthy (PBool b) = b"
| "truthy (PInt i) = (i \<noteq> 0)"
| "truthy (PFloat x) = (x mod 2 ^ 63 \<noteq> 0)"
| "truthy (PStr s) = (s \<noteq> [])"
| "truthy (PBytes s) = (s \<noteq> [])"
| "truthy (PList xs) = (xs \<noteq> [])"
| "truthy (PDict kvs) = (kvs \<noteq> [])"
| "truthy (PFile ls) = True"

text \<open>
  A parameter's annotation: a class (\<open>int\<close>, \<open>str\<close>, ...), \<open>typing.Any\<close>,
  \<open>typing.List[a]\<close> or \<open>typing.Union[a1, ..., an]\<close>; \<open>typing.Optional[a]\<close> is
  \<open>typing.Union[a, NoneType]\<close>.
\<close>

datatype annot =
    AClass pyclass
  | AAny
  | AList annot
  | AUnion "annot list"

definition quote :: char where
  "quote = CHR 0x27"

fun class_name :: "pyclass \<Rightarrow> string" where
  "class_name TNone = ''NoneType''"
| "class_name TBool = ''bool''"
| "class_name TInt = ''int''"
| "class_name TFloat = ''float''"
| "class_name TStr = ''str''"
| "class_name TBytes = ''bytes''"
| "class_name TList = ''list''"
| "class_name TDict = ''dict''"
| "class_name TFile = ''FileStorage''"

text \<open>The name a class is printed by: its \<open>__qualname__\<close>, after its module when that is not \<open>builtins\<close>.\<close>

fun class_path :: "pyclass \<Rightarrow> string" where
  "class_path TFile = ''werkzeug.datastructures.FileStorage''"
| "class_path t = class_name t"

fun join :: "string \<Rightarrow> string list \<Rightarrow> string" where
  "join sep [] = []"
| "join sep [s] = s"
| "join sep (s # t # ss) = s @ sep @ join sep (t # ss)"

text \<open>
  \<open>str(annotation)\<close>, which the source dispatches on (lines 64, 89, 93, 98, 107, 121, 127),
  as the interpreters the code was written for print it (Python 3.7 and 3.8, where an
  optional type prints as the union it is). \<open>type_repr\<close> is how \<open>typing\<close> prints an
  argument inside the brackets.
\<close>

fun type_repr :: "annot \<Rightarrow> string" where
  "type_repr (AClass t) = class_path t"
| "type_repr AAny = ''typing.Any''"
| "type_repr (AList a) = ''typing.List['' @ type_repr a @ '']''"
| "type_repr (AUnion as) = ''typing.Union['' @ join '', '' (map type_repr as) @ '']''"

definition annot_str :: "annot \<Rightarrow> string" where
  "annot_str a =
     (case a of
        AClass t \<Rightarrow> ''<class '' @ [quote] @ class_path t @ [quote] @ ''>''
      | _ \<Rightarrow> type_repr a)"

text \<open>
  The attributes the source reads off an annotation. \<open>__args__\<close> exists on a list and on
  a union only (\<open>hasattr\<close> is \<open>has_args\<close>); the source reads it unguarded only after
  \<open>str\<close> has shown a list or a union (lemmas \<open>prefix_Union_iff\<close>, \<open>prefix_List_iff\<close>).
  \<open>__name__\<close> exists on a class only.
\<close>

fun has_args :: "annot \<Rightarrow> bool" where
  "has_args (AList a) = True"
| "has_args (AUnion as) = True"
| "has_args a = False"

fun dunder_args :: "annot \<Rightarrow> annot list" where
  "dunder_args (AList a) = [a]"
| "dunder_args (AUnion as) = as"
| "dunder_args a = []"

fun has_name :: "annot \<Rightarrow> bool" where
  "has_name (AClass t) = True"
| "has_name a = False"

fun dunder_name :: "annot \<Rightarrow> string" where
  "dunder_name (AClass t) = class_name t"
| "dunder_name a = []"

section \<open>Exceptions, source bindings and parameters\<close>

datatype source = Route | Json | Query | Form | File

text \<open>
  The exceptions that can leave \<open>validate\<close>: the three of the \<open>exceptions\<close> module with
  the arguments the source gives them, and the built-in ones. \<open>ValueError m\<close> is any
  instance of \<open>ValueError\<close> (subclasses included) whose \<open>str\<close> is \<open>m\<close>;
  \<open>OtherException\<close> is an instance of any other subclass of \<open>Exception\<close>.
\<close>

datatype exn =
    MissingInputError string source
  | InvalidParameterTypeError
  | ValidationError string string annot
  | ValueError string
  | TypeError string
  | AttributeError string
  | OtherException string

text \<open>
  A source binding is an instance of one of the five classes of \<open>parameter_types\<close>. That
  module is not part of the sources, so what the engine uses of a binding is a parameter:
  its class, its \<open>default\<close> attribute (\<open>PNone\<close> when none was given), and its two methods.
  \<open>binding_convert\<close> returns the converted value together with the object it was given as
  the call leaves it (a list may have been changed in place), or raises;
  \<open>binding_validate\<close> returns normally (\<open>None\<close>) or raises.
\<close>

record binding =
  binding_class :: source
  binding_default :: pyval
  binding_convert :: "pyval \<Rightarrow> annot list \<Rightarrow> exn + (pyval \<times> pyval)"
  binding_validate :: "pyval \<Rightarrow> exn option"

text \<open>
  One entry of \<open>signature(f).parameters\<close>: \<open>param_default\<close> is the parameter's default
  value, \<open>Some b\<close> when it is an instance of one of the five binding classes.
\<close>

record param =
  param_name :: string
  param_annotation :: annot
  param_default :: "binding option"

text \<open>
  One value of \<open>request_inputs\<close>: a dict, or another object (a JSON body that is not an
  object), which has no \<open>get\<close>.
\<close>

datatype inputs = Dict "string \<Rightarrow> pyval option" | NonDict pyval

section \<open>Preparing the expected types (lines 92--112)\<close>

text \<open>
  \<open>user_inputs\<close> is either the fresh one-element list \<open>[user_input]\<close> or the object
  \<open>user_input\<close> itself.
\<close>

datatype inputs_ref = Wrapped | Alias

record prepared =
  expected_input_type :: annot
  expected_input_types :: "annot list"
  expected_input_type_str :: string
  user_inputs :: inputs_ref

text \<open>
  The three tests of lines 98--101 on one member of the union: it prints as a list, the
  input is a list, and the type of each of its elements is among the member's arguments.
\<close>

definition list_match :: "annot \<Rightarrow> pyval \<Rightarrow> bool" where
  "list_match exp_type user_input =
     (prefix ''typing.List'' (annot_str exp_type) \<and>
      (case user_input of
         PList xs \<Rightarrow> list_all (\<lambda>inp. AClass (pytype inp) \<in> set (dunder_args exp_type)) xs
       | _ \<Rightarrow> False))"

text \<open>
  The loop of lines 97--105 over the members of the union (the tuple it started with):
  every member that passes the tests overwrites the four variables, and the loop goes on,
  so the last such member stands.
\<close>

fun elect :: "annot list \<Rightarrow> pyval \<Rightarrow> prepared \<Rightarrow> prepared" where
  "elect [] user_input st = st"
| "elect (exp_type # rest) user_input st =
     elect rest user_input
       (if list_match exp_type user_input
        then \<lparr> expected_input_type = exp_type,
               expected_input_types = dunder_args exp_type,
               expected_input_type_str = annot_str exp_type,
               user_inputs = Alias \<rparr>
        else st)"

definition prepare :: "annot \<Rightarrow> pyval \<Rightarrow> prepared" where
  "prepare a user_input =
     (if prefix ''typing.Union'' (annot_str a) then
        elect (dunder_args a) user_input
          \<lparr> expected_input_type = a, expected_input_types = dunder_args a,
            expected_input_type_str = annot_str a, user_inputs = Wrapped \<rparr>
      else if prefix ''typing.List'' (annot_str a) then
        \<lparr> expected_input_type = a, expected_input_types = dunder_args a,
          expected_input_type_str = annot_str a, user_inputs = Alias \<rparr>
      else
        \<lparr> expected_input_type = a, expected_input_types = [a],
          expected_input_type_str = annot_str a, user_inputs = Wrapped \<rparr>)"

section \<open>Conformance and the semantic check (lines 114--140)\<close>

text \<open>
  What \<open>for inp in obj\<close> yields, or the \<open>TypeError\<close> of an object that cannot be
  iterated.
\<close>

fun py_iter :: "pyval \<Rightarrow> exn + pyval list" where
  "py_iter (PList xs) = Inr xs"
| "py_iter (PStr s) = Inr (map (\<lambda>c. PStr [c]) s)"
| "py_iter (PBytes s) = Inr (map (\<lambda>c. PInt (of_char c)) s)"
| "py_iter (PDict kvs) = Inr (map (\<lambda>kv. PStr (fst kv)) kvs)"
| "py_iter (PFile ls) = Inr (map PBytes ls)"
| "py_iter v = Inl (TypeError ([quote] @ class_name (pytype v) @ [quote] @ '' object is not iterable''))"

text \<open>
  The elements line 118 iterates over, after the call of \<open>convert\<close>: \<open>raw\<close> is the value
  \<open>convert\<close> was given and \<open>after\<close> the same object as the call left it. Only the type of
  each element is read, and the type of an object never changes, so in the one-element
  list the raw value stands for the object.
\<close>

fun iterate :: "inputs_ref \<Rightarrow> pyval \<Rightarrow> pyval \<Rightarrow> exn + pyval list" where
  "iterate Wrapped raw after = Inr [raw]"
| "iterate Alias raw after = py_iter after"

definition type_name :: "annot \<Rightarrow> string" where
  "type_name a =
     (if has_name a \<and> \<not> prefix ''typing.'' (annot_str a) then dunder_name a
      else annot_str a)"

text \<open>The error of line 131.\<close>

definition type_mismatch :: "string \<Rightarrow> annot \<Rightarrow> exn" where
  "type_mismatch expected_name original =
     ValidationError (''must be type '' @ [quote] @ type_name original @ [quote])
       expected_name original"

text \<open>Lines 133--140: the binding's own check of the converted value.\<close>

definition semantic :: "binding \<Rightarrow> string \<Rightarrow> annot \<Rightarrow> pyval \<Rightarrow> exn + pyval" where
  "semantic b expected_name expected_type converted =
     (case binding_validate b converted of
        None \<Rightarrow> Inr converted
      | Some (ValueError m) \<Rightarrow> Inl (ValidationError m expected_name expected_type)
      | Some e \<Rightarrow> Inl e)"

text \<open>
  Lines 117--123: the type of every element is among the expected types, and where a list
  is expected the converted value is a list.
\<close>

definition conforms :: "prepared \<Rightarrow> pyval \<Rightarrow> pyval list \<Rightarrow> bool" where
  "conforms pr converted inps =
     (let validation_success =
            list_all (\<lambda>inp. AClass (pytype inp) \<in> set (expected_input_types pr)) inps
      in if prefix ''typing.List'' (expected_input_type_str pr)
         then (if pytype converted \<noteq> TList then False else validation_success)
         else validation_success)"

text \<open>Lines 88--140: what \<open>validate\<close> does once \<open>user_input\<close> is not \<open>None\<close>.\<close>

definition validate_present :: "param \<Rightarrow> binding \<Rightarrow> pyval \<Rightarrow> exn + pyval" where
  "validate_present p b user_input =
     (if prefix ''typing.Any'' (annot_str (param_annotation p)) then Inr user_input
      else
        let pr = prepare (param_annotation p) user_input in
        case binding_convert b user_input (expected_input_types pr) of
          Inl e \<Rightarrow> Inl e
        | Inr (converted, after) \<Rightarrow>
            (case iterate (user_inputs pr) user_input after of
               Inl e \<Rightarrow> Inl e
             | Inr inps \<Rightarrow>
                 if \<not> conforms pr converted inps
                 then Inl (type_mismatch (param_name p) (param_annotation p))
                 else semantic b (param_name p) (expected_input_type pr) converted))"

section \<open>Per-parameter validation (lines 53--140)\<close>

text \<open>The test of line 83.\<close>

definition none_in_args :: "annot \<Rightarrow> bool" where
  "none_in_args a = (has_args a \<and> AClass TNone \<in> set (dunder_args a))"

definition validate :: "param \<Rightarrow> (source \<Rightarrow> inputs) \<Rightarrow> exn + pyval" where
  "validate expected_input all_request_inputs =
     (case param_default expected_input of
        None \<Rightarrow> Inl InvalidParameterTypeError
      | Some b \<Rightarrow>
          (case all_request_inputs (binding_class b) of
             NonDict obj \<Rightarrow>
               Inl (AttributeError ([quote] @ class_name (pytype obj) @ [quote]
                      @ '' object has no attribute '' @ [quote] @ ''get'' @ [quote]))
           | Dict d \<Rightarrow>
               let user_input = (case d (param_name expected_input) of None \<Rightarrow> PNone | Some v \<Rightarrow> v) in
               if user_input = PNone then
                 if binding_default b \<noteq> PNone
                 then validate_present expected_input b (binding_default b)
                 else if none_in_args (param_annotation expected_input) then Inr user_input
                 else Inl (MissingInputError (param_name expected_input) (binding_class b))
               else validate_present expected_input b user_input))"

section \<open>The decorated handler (lines 20--48)\<close>

text \<open>
  What \<open>nested_func\<close> reads of the Flask request: \<open>request.json\<close> (\<open>PNone\<close> without a
  JSON body) and the flat dicts of \<open>request.args\<close>, \<open>request.form\<close> and \<open>request.files\<close>.
\<close>

record request =
  request_json :: pyval
  request_args :: "string \<Rightarrow> string option"
  request_form :: "string \<Rightarrow> string option"
  request_files :: "string \<Rightarrow> string list option"

definition request_inputs :: "(string \<Rightarrow> pyval option) \<Rightarrow> request \<Rightarrow> source \<Rightarrow> inputs" where
  "request_inputs kwargs req src =
     (case src of
        Route \<Rightarrow> Dict kwargs
      | Json \<Rightarrow>
          (if truthy (request_json req)
           then (case request_json req of PDict kvs \<Rightarrow> Dict (map_of kvs) | obj \<Rightarrow> NonDict obj)
           else Dict Map.empty)
      | Query \<Rightarrow> Dict (map_option PStr \<circ> request_args req)
      | Form \<Rightarrow> Dict (map_option PStr \<circ> request_form req)
      | File \<Rightarrow> Dict (map_option PFile \<circ> request_files req))"

text \<open>
  What a call of \<open>nested_func\<close> ends in: the default error response
  \<open>({"error": message}, status)\<close>, a value returned by the handler or by the custom error
  handler, or an exception that nothing caught.
\<close>

datatype 'r outcome = ErrorPayload string nat | Return 'r | Raise exn

text \<open>
  The loop of lines 34--47, with \<open>validated_inputs\<close> as its state. \<open>exn_str\<close> is
  \<open>str\<close> on the exceptions of the \<open>exceptions\<close> module, which is not part of the sources.
  \<open>Inl\<close> is the \<open>return\<close> (or the uncaught exception) that leaves the loop early.
\<close>

fun validate_each ::
  "(exn \<Rightarrow> 'r) option \<Rightarrow> (exn \<Rightarrow> string) \<Rightarrow> (source \<Rightarrow> inputs) \<Rightarrow> param list \<Rightarrow>
   (string \<Rightarrow> pyval option) \<Rightarrow> 'r outcome + (string \<Rightarrow> pyval option)" where
  "validate_each custom_error_handler exn_str inps [] validated_inputs = Inr validated_inputs"
| "validate_each custom_error_handler exn_str inps (expected # rest) validated_inputs =
     (case custom_error_handler of
        None \<Rightarrow>
          (case validate expected inps of
             Inl (MissingInputError n s) \<Rightarrow> Inl (ErrorPayload (exn_str (MissingInputError n s)) 400)
           | Inl (ValidationError m n t) \<Rightarrow> Inl (ErrorPayload (exn_str (ValidationError m n t)) 400)
           | Inl e \<Rightarrow> Inl (Raise e)
           | Inr new_input \<Rightarrow>
               validate_each custom_error_handler exn_str inps rest
                 (validated_inputs(param_name expected \<mapsto> new_input)))
      | Some handler \<Rightarrow>
          (case validate expected inps of
             Inl e \<Rightarrow> Inl (Return (handler e))
           | Inr new_input \<Rightarrow>
               validate_each custom_error_handler exn_str inps rest
                 (validated_inputs(param_name expected \<mapsto> new_input))))"

text \<open>
  \<open>nested_func\<close>: \<open>f\<close> is the handler as a function of the keyword arguments it is called
  with, \<open>expected_inputs\<close> its parameters in the order of its signature.
\<close>

definition nested_func ::
  "(exn \<Rightarrow> 'r) option \<Rightarrow> (exn \<Rightarrow> string) \<Rightarrow> ((string \<Rightarrow> pyval option) \<Rightarrow> 'r) \<Rightarrow> param list \<Rightarrow>
   request \<Rightarrow> (string \<Rightarrow> pyval option) \<Rightarrow> 'r outcome" where
  "nested_func custom_error_handler exn_str f expected_inputs req kwargs =
     (case validate_each custom_error_handler exn_str (request_inputs kwargs req)
             expected_inputs Map.empty of
        Inl out \<Rightarrow> out
      | Inr validated_inputs \<Rightarrow> Return (f kwargs))"

section \<open>Sample bindings and parameters\<close>

text \<open>
  Bindings to evaluate the engine on. The classes of \<open>parameter_types\<close> are not part of
  the sources; these follow the contract the engine expects of them. \<open>plain_binding\<close>
  converts nothing and accepts every value; \<open>raising_binding\<close> raises from both methods.
\<close>

definition plain_binding :: "source \<Rightarrow> pyval \<Rightarrow> binding" where
  "plain_binding src dflt =
     \<lparr> binding_class = src, binding_default = dflt,
       binding_convert = (\<lambda>v ts. Inr (v, v)),
       binding_validate = (\<lambda>v. None) \<rparr>"

definition raising_binding :: "source \<Rightarrow> pyval \<Rightarrow> binding" where
  "raising_binding src dflt =
     \<lparr> binding_class = src, binding_default = dflt,
       binding_convert = (\<lambda>v ts. Inl (OtherException ''convert called'')),
       binding_validate = (\<lambda>v. Some (OtherException ''validate called'')) \<rparr>"

text \<open>
  Modelled from the spec: the conversion of a query-string binding (\<open>parameter_types\<close> is
  not part of the sources), which turns the text \<open>true\<close> or \<open>false\<close> into a boolean
  when \<open>bool\<close> is a candidate type and returns every other value unchanged.
\<close>

definition query_binding :: "pyval \<Rightarrow> binding" where
  "query_binding dflt =
     \<lparr> binding_class = Query, binding_default = dflt,
       binding_convert =
         (\<lambda>v ts. if AClass TBool \<in> set ts \<and> v = PStr ''true'' then Inr (PBool True, v)
                  else if AClass TBool \<in> set ts \<and> v = PStr ''false'' then Inr (PBool False, v)
                  else Inr (v, v)),
       binding_validate = (\<lambda>v. None) \<rparr>"

text \<open>
  Modelled from the spec: a body binding with the numeric bounds \<open>min_int\<close> and
  \<open>max_int\<close> (\<open>parameter_types\<close> is not part of the sources): it converts nothing and
  its check raises \<open>ValueError\<close> on an integer outside the bounds.
\<close>

definition int_range_binding :: "int \<Rightarrow> int \<Rightarrow> binding" where
  "int_range_binding min_int max_int =
     \<lparr> binding_class = Json, binding_default = PNone,
       binding_convert = (\<lambda>v ts. Inr (v, v)),
       binding_validate =
         (\<lambda>v. case v of
                PInt i \<Rightarrow>
                  if i < min_int then Some (ValueError ''must be larger than the minimum'')
                  else if max_int < i then Some (ValueError ''must be smaller than the maximum'')
                  else None
              | _ \<Rightarrow> None) \<rparr>"

text \<open>
  Three parameters of the handler \<open>hello\<close> of lines 161--168:
  \<open>id: int = Route()\<close>, \<open>age: int = Json(min_int=18, max_int=99)\<close> and
  \<open>is_admin: bool = Query(False)\<close>.
\<close>

definition hello_params :: "param list" where
  "hello_params =
     [\<lparr> param_name = ''id'', param_annotation = AClass TInt,
        param_default = Some (plain_binding Route PNone) \<rparr>,
      \<lparr> param_name = ''age'', param_annotation = AClass TInt,
        param_default = Some (int_range_binding 18 99) \<rparr>,
      \<lparr> param_name = ''is_admin'', param_annotation = AClass TBool,
        param_default = Some (query_binding (PBool False)) \<rparr>]"

definition empty_request :: request where
  "empty_request =
     \<lparr> request_json = PNone, request_args = Map.empty, request_form = Map.empty,
       request_files = Map.empty \<rparr>"

section \<open>How the annotations print\<close>

lemma annot_str_AClass: "annot_str (AClass t) = ''<class '' @ [quote] @ class_path t @ [quote] @ ''>''"
  by (simp add: annot_str_def)

lemma annot_str_AAny: "annot_str AAny = ''typing.Any''"
  by (simp add: annot_str_def)

lemma annot_str_AList: "annot_str (AList a) = ''typing.List['' @ type_repr a @ '']''"
  by (simp add: annot_str_def)

lemma annot_str_AUnion:
  "annot_str (AUnion as) = ''typing.Union['' @ join '', '' (map type_repr as) @ '']''"
  by (simp add: annot_str_def)

lemmas annot_str_simps = annot_str_AClass annot_str_AAny annot_str_AList annot_str_AUnion

lemma prefix_Any_iff: "prefix ''typing.Any'' (annot_str a) \<longleftrightarrow> a = AAny"
  by (cases a) (simp_all add: annot_str_simps)

lemma prefix_Union_iff: "prefix ''typing.Union'' (annot_str a) \<longleftrightarrow> (\<exists>as. a = AUnion as)"
  by (cases a) (simp_all add: annot_str_simps)

lemma prefix_List_iff: "prefix ''typing.List'' (annot_str a) \<longleftrightarrow> (\<exists>b. a = AList b)"
  by (cases a) (simp_all add: annot_str_simps)


section \<open>What the preparation yields\<close>

lemma find_append_case:
  "find P (xs @ ys) = (case find P xs of None \<Rightarrow> find P ys | Some x \<Rightarrow> Some x)"
  by (induction xs) simp_all

lemma elect_find:
  "elect ts v st =
     (case find (\<lambda>m. list_match m v) (rev ts) of
        None \<Rightarrow> st
      | Some m \<Rightarrow> \<lparr> expected_input_type = m, expected_input_types = dunder_args m,
                    expected_input_type_str = annot_str m, user_inputs = Alias \<rparr>)"
proof (induction ts arbitrary: st)
  case Nil
  show ?case by simp
next
  case (Cons m ts)
  show ?case
    by (simp add: Cons.IH find_append_case split: option.splits)
qed

lemma list_match_AList: "list_match m v \<Longrightarrow> \<exists>t. m = AList t"
  by (simp add: list_match_def prefix_List_iff)

lemma list_match_iff:
  "list_match m v \<longleftrightarrow>
     (\<exists>t xs. m = AList t \<and> v = PList xs \<and> list_all (\<lambda>inp. AClass (pytype inp) = t) xs)"
  by (cases m; cases v) (auto simp add: list_match_def prefix_List_iff list_all_iff)

lemma prepare_AClass:
  "prepare (AClass t) v =
     \<lparr> expected_input_type = AClass t, expected_input_types = [AClass t],
       expected_input_type_str = annot_str (AClass t), user_inputs = Wrapped \<rparr>"
  by (simp add: prepare_def prefix_Union_iff prefix_List_iff)

lemma prepare_AList:
  "prepare (AList t) v =
     \<lparr> expected_input_type = AList t, expected_input_types = [t],
       expected_input_type_str = annot_str (AList t), user_inputs = Alias \<rparr>"
  by (simp add: prepare_def prefix_Union_iff prefix_List_iff)

lemma prepare_AUnion:
  "prepare (AUnion ts) v =
     (case find (\<lambda>m. list_match m v) (rev ts) of
        None \<Rightarrow> \<lparr> expected_input_type = AUnion ts, expected_input_types = ts,
                   expected_input_type_str = annot_str (AUnion ts), user_inputs = Wrapped \<rparr>
      | Some m \<Rightarrow> \<lparr> expected_input_type = m, expected_input_types = dunder_args m,
                    expected_input_type_str = annot_str m, user_inputs = Alias \<rparr>)"
  by (simp add: prepare_def prefix_Union_iff elect_find)


lemma validate_raw:
  assumes "param_default p = Some b"
    and "all_request_inputs (binding_class b) = Dict d"
    and "raw = (case d (param_name p) of
                  None \<Rightarrow> binding_default b
                | Some v \<Rightarrow> if v = PNone then binding_default b else v)"
    and "raw \<noteq> PNone"
  shows "validate p all_request_inputs = validate_present p b raw"
  using assms by (auto simp add: validate_def split: option.splits)

section \<open>Absent inputs (lines 76--86)\<close>


text \<open>
  Claim C4. An optional parameter (its annotation a union with \<open>NoneType\<close> among the
  members) whose source holds no value for its name and whose binding has no default
  validates to \<open>None\<close>. Neither \<open>convert\<close> nor the binding's \<open>validate\<close> is called, and no
  type is checked: the result is the same whatever the two methods of the binding are, also
  when both raise on every call.
\<close>

theorem optional_absent_yields_none:
  assumes "param_default p = Some b"
    and "binding_default b = PNone"
    and "all_request_inputs (binding_class b) = Dict d"
    and "d (param_name p) = None"
    and "param_annotation p = AUnion ts"
    and "AClass TNone \<in> set ts"
  shows "validate (p\<lparr>param_default := Some (b\<lparr>binding_convert := c, binding_validate := s\<rparr>)\<rparr>)
           all_request_inputs = Inr PNone"
  using assms by (simp add: validate_def none_in_args_def)

theorem optional_absent_yields_none_witness:
  "param_default \<lparr> param_name = ''nickname'',
       param_annotation = AUnion [AClass TStr, AClass TNone],
       param_default = Some (plain_binding Json PNone) \<rparr> = Some (plain_binding Json PNone)
   \<and> binding_default (plain_binding Json PNone) = PNone
   \<and> request_inputs Map.empty empty_request (binding_class (plain_binding Json PNone)) = Dict Map.empty
   \<and> AClass TNone \<in> set [AClass TStr, AClass TNone]
   \<and> validate \<lparr> param_name = ''nickname'',
         param_annotation = AUnion [AClass TStr, AClass TNone],
         param_default = Some (raising_binding Json PNone) \<rparr>
         (request_inputs Map.empty empty_request) = Inr PNone"
  using optional_absent_yields_none
    [where p = "\<lparr> param_name = ''nickname'',
               param_annotation = AUnion [AClass TStr, AClass TNone],
               param_default = Some (plain_binding Json PNone) \<rparr>"
       and b = "plain_binding Json PNone"
       and all_request_inputs = "request_inputs Map.empty empty_request"
       and d = Map.empty
       and ts = "[AClass TStr, AClass TNone]"
       and c = "\<lambda>v ts. Inl (OtherException ''convert called'')"
       and s = "\<lambda>v. Some (OtherException ''validate called'')"]
  by (simp add: plain_binding_def raising_binding_def request_inputs_def empty_request_def)

text \<open>
  Claim C9. Absence is read off \<open>dict.get\<close>: a name whose value is \<open>None\<close> (a JSON
  \<open>null\<close>) validates exactly as a name the source does not hold, and the outcome is that
  of the default, of the optional or of the missing-input path; the \<open>None\<close> itself is never
  converted or checked.
\<close>

theorem explicit_null_is_absent:
  assumes "param_default p = Some b"
    and "all_request_inputs (binding_class b) = Dict d"
    and "d (param_name p) = Some PNone"
  shows "validate p all_request_inputs =
           validate p (all_request_inputs (binding_class b := Dict (d (param_name p := None))))
         \<and> validate p all_request_inputs =
           (if binding_default b \<noteq> PNone then validate_present p b (binding_default b)
            else if none_in_args (param_annotation p) then Inr PNone
            else Inl (MissingInputError (param_name p) (binding_class b)))"
  using assms by (simp add: validate_def)

theorem explicit_null_is_absent_witness:
  "param_default \<lparr> param_name = ''age'', param_annotation = AClass TInt,
       param_default = Some (raising_binding Json PNone) \<rparr> = Some (raising_binding Json PNone)
   \<and> request_inputs Map.empty (empty_request \<lparr> request_json := PDict [(''age'', PNone)] \<rparr>)
         (binding_class (raising_binding Json PNone)) = Dict [''age'' \<mapsto> PNone]
   \<and> validate \<lparr> param_name = ''age'', param_annotation = AClass TInt,
         param_default = Some (raising_binding Json PNone) \<rparr>
         (request_inputs Map.empty (empty_request \<lparr> request_json := PDict [(''age'', PNone)] \<rparr>))
       = Inl (MissingInputError ''age'' Json)"
  using explicit_null_is_absent
    [where p = "\<lparr> param_name = ''age'', param_annotation = AClass TInt,
               param_default = Some (raising_binding Json PNone) \<rparr>"
       and b = "raising_binding Json PNone"
       and all_request_inputs =
         "request_inputs Map.empty (empty_request \<lparr> request_json := PDict [(''age'', PNone)] \<rparr>)"
       and d = "[''age'' \<mapsto> PNone]"]
  by (simp add: raising_binding_def request_inputs_def empty_request_def none_in_args_def
      validate_def)




section \<open>Conversion, conformance and the semantic check (lines 114--140)\<close>

lemma validate_present_not_any:
  assumes "param_annotation p \<noteq> AAny"
  shows "validate_present p b raw =
           (case binding_convert b raw (expected_input_types (prepare (param_annotation p) raw)) of
              Inl e \<Rightarrow> Inl e
            | Inr (converted, after) \<Rightarrow>
                (case iterate (user_inputs (prepare (param_annotation p) raw)) raw after of
                   Inl e \<Rightarrow> Inl e
                 | Inr inps \<Rightarrow>
                     if \<not> conforms (prepare (param_annotation p) raw) converted inps
                     then Inl (type_mismatch (param_name p) (param_annotation p))
                     else semantic b (param_name p)
                            (expected_input_type (prepare (param_annotation p) raw)) converted))"
  using assms by (simp add: validate_present_def prefix_Any_iff Let_def)

text \<open>
  Claim C6 on the code: \<open>nicknames: List[str] = Json()\<close> with the body
  \<open>{"nicknames": 5}\<close> and a binding that converts nothing. Line 118 iterates over the
  integer before line 122 can see that it is not a list, so what leaves \<open>validate\<close> is
  a \<open>TypeError\<close> and not the \<open>ValidationError\<close> of line 131.
\<close>

theorem list_param_given_int_raises_type_error:
  "validate \<lparr> param_name = ''nicknames'', param_annotation = AList (AClass TStr),
       param_default = Some (plain_binding Json PNone) \<rparr>
     (request_inputs Map.empty (empty_request \<lparr> request_json := PDict [(''nicknames'', PInt 5)] \<rparr>))
   = Inl (TypeError ([quote] @ ''int'' @ [quote] @ '' object is not iterable''))"
  by (simp add: validate_def validate_present_def prepare_AList annot_str_simps
      plain_binding_def request_inputs_def empty_request_def)

text \<open>
  Claim C10. Once conversion and conformance have passed, a \<open>ValueError\<close> raised by the
  binding's \<open>validate\<close> leaves as a \<open>ValidationError\<close> with the message of the
  \<open>ValueError\<close>, the parameter's name and the expected type as the preparation left it
  (the elected list member where one was elected); every other exception of the binding's
  \<open>validate\<close> leaves as it is, and so does every exception raised by \<open>convert\<close>, a
  \<open>ValueError\<close> included.
\<close>

theorem value_error_wrapped:
  assumes "param_default p = Some b"
    and "all_request_inputs (binding_class b) = Dict d"
    and "raw = (case d (param_name p) of
                  None \<Rightarrow> binding_default b
                | Some v \<Rightarrow> if v = PNone then binding_default b else v)"
    and "raw \<noteq> PNone"
    and "param_annotation p \<noteq> AAny"
    and "pr = prepare (param_annotation p) raw"
  shows "(\<forall>e. binding_convert b raw (expected_input_types pr) = Inl e
              \<longrightarrow> validate p all_request_inputs = Inl e)
       \<and> (\<forall>converted after inps.
             binding_convert b raw (expected_input_types pr) = Inr (converted, after)
             \<and> iterate (user_inputs pr) raw after = Inr inps
             \<and> conforms pr converted inps
             \<longrightarrow> validate p all_request_inputs =
                   (case binding_validate b converted of
                      None \<Rightarrow> Inr converted
                    | Some (ValueError m) \<Rightarrow>
                        Inl (ValidationError m (param_name p) (expected_input_type pr))
                    | Some e \<Rightarrow> Inl e))"
  unfolding validate_raw [of p b all_request_inputs d raw, OF assms(1-4)]
    validate_present_not_any [OF assms(5)] assms(6)
  by (simp add: semantic_def)

theorem value_error_wrapped_witness:
  "param_default (hello_params ! 1) = Some (int_range_binding 18 99)
   \<and> request_inputs Map.empty (empty_request \<lparr> request_json := PDict [(''age'', PInt 15)] \<rparr>)
       (binding_class (int_range_binding 18 99)) = Dict [''age'' \<mapsto> PInt 15]
   \<and> param_annotation (hello_params ! 1) \<noteq> AAny
   \<and> binding_convert (int_range_binding 18 99) (PInt 15)
       (expected_input_types (prepare (param_annotation (hello_params ! 1)) (PInt 15)))
       = Inr (PInt 15, PInt 15)
   \<and> iterate (user_inputs (prepare (param_annotation (hello_params ! 1)) (PInt 15)))
       (PInt 15) (PInt 15) = Inr [PInt 15]
   \<and> conforms (prepare (param_annotation (hello_params ! 1)) (PInt 15)) (PInt 15) [PInt 15]
   \<and> binding_validate (int_range_binding 18 99) (PInt 15)
       = Some (ValueError ''must be larger than the minimum'')
   \<and> validate (hello_params ! 1)
       (request_inputs Map.empty (empty_request \<lparr> request_json := PDict [(''age'', PInt 15)] \<rparr>))
     = Inl (ValidationError ''must be larger than the minimum'' ''age'' (AClass TInt))"
  using value_error_wrapped
    [where p = "hello_params ! 1" and b = "int_range_binding 18 99"
       and all_request_inputs =
         "request_inputs Map.empty (empty_request \<lparr> request_json := PDict [(''age'', PInt 15)] \<rparr>)"
       and d = "[''age'' \<mapsto> PInt 15]" and raw = "PInt 15"
       and pr = "prepare (AClass TInt) (PInt 15)"]
  by (simp add: hello_params_def int_range_binding_def request_inputs_def empty_request_def
      prepare_AClass conforms_def annot_str_simps)

section \<open>The session (lines 33--48)\<close>

lemma validate_each_append:
  assumes "list_all (\<lambda>q. \<not> isl (validate q inps)) ps"
  shows "\<exists>acc'. validate_each h exn_str inps (ps @ rest) acc
           = validate_each h exn_str inps rest acc'"
  using assms
proof (induction ps arbitrary: acc)
  case Nil
  show ?case by auto
next
  case (Cons q ps)
  from Cons.prems obtain v where v: "validate q inps = Inr v"
    by (cases "validate q inps") auto
  from Cons.prems have "list_all (\<lambda>q. \<not> isl (validate q inps)) ps" by simp
  from Cons.IH [OF this] show ?case
    by (cases h) (simp_all add: v)
qed

lemma validate_each_failure:
  assumes "validate p inps = Inl e"
  shows "validate_each h exn_str inps (p # qs) acc =
           Inl (case h of
                  None \<Rightarrow>
                    (case e of
                       MissingInputError n s \<Rightarrow> ErrorPayload (exn_str e) 400
                     | ValidationError m n t \<Rightarrow> ErrorPayload (exn_str e) 400
                     | _ \<Rightarrow> Raise e)
                | Some handler \<Rightarrow> Return (handler e))"
  using assms by (cases h; cases e) simp_all

text \<open>
  Claim C8. When the parameters before \<open>p\<close> validate and \<open>p\<close> raises \<open>e\<close>: without
  a custom error handler a \<open>MissingInputError\<close> or a \<open>ValidationError\<close> (a type
  mismatch or a semantic failure) ends the call with \<open>({"error": str(e)}, 400)\<close>; with a
  custom error handler every exception ends it with what the handler returns for \<open>e\<close>.
  The parameters \<open>qs\<close> after \<open>p\<close> and the handler \<open>f\<close> have no part in the result.
\<close>

theorem first_failure_aborts_session:
  assumes "list_all (\<lambda>q. \<not> isl (validate q (request_inputs kwargs req))) ps"
    and "validate p (request_inputs kwargs req) = Inl e"
  shows "nested_func custom_error_handler exn_str f (ps @ p # qs) req kwargs =
           (case custom_error_handler of
              None \<Rightarrow>
                (case e of
                   MissingInputError n s \<Rightarrow> ErrorPayload (exn_str e) 400
                 | ValidationError m n t \<Rightarrow> ErrorPayload (exn_str e) 400
                 | _ \<Rightarrow> Raise e)
            | Some handler \<Rightarrow> Return (handler e))"
proof -
  from validate_each_append [OF assms(1)] obtain acc' where eq:
    "validate_each custom_error_handler exn_str (request_inputs kwargs req) (ps @ p # qs) Map.empty
       = validate_each custom_error_handler exn_str (request_inputs kwargs req) (p # qs) acc'"
    by blast
  show ?thesis
    unfolding nested_func_def eq validate_each_failure [OF assms(2)]
    by simp
qed

theorem first_failure_aborts_session_witness:
  "list_all (\<lambda>q. \<not> isl (validate q
       (request_inputs [''id'' \<mapsto> PInt 7] (empty_request \<lparr> request_json := PDict [(''age'', PInt 15)] \<rparr>))))
     [hello_params ! 0]
   \<and> validate (hello_params ! 1)
       (request_inputs [''id'' \<mapsto> PInt 7] (empty_request \<lparr> request_json := PDict [(''age'', PInt 15)] \<rparr>))
     = Inl (ValidationError ''must be larger than the minimum'' ''age'' (AClass TInt))
   \<and> nested_func None (\<lambda>e. ''age is out of range'') (\<lambda>kwargs. ''Hello World!'') hello_params
       (empty_request \<lparr> request_json := PDict [(''age'', PInt 15)] \<rparr>) [''id'' \<mapsto> PInt 7]
     = ErrorPayload ''age is out of range'' 400
   \<and> nested_func (Some (\<lambda>e. ''handled'')) (\<lambda>e. ''age is out of range'')
       (\<lambda>kwargs. ''Hello World!'') hello_params
       (empty_request \<lparr> request_json := PDict [(''age'', PInt 15)] \<rparr>) [''id'' \<mapsto> PInt 7]
     = Return ''handled''"
  using first_failure_aborts_session
    [where ps = "[hello_params ! 0]" and p = "hello_params ! 1" and qs = "[hello_params ! 2]"
       and kwargs = "[''id'' \<mapsto> PInt 7]"
       and req = "empty_request \<lparr> request_json := PDict [(''age'', PInt 15)] \<rparr>"
       and e = "ValidationError ''must be larger than the minimum'' ''age'' (AClass TInt)"
       and custom_error_handler = None and exn_str = "\<lambda>e. ''age is out of range''"
       and f = "\<lambda>kwargs. ''Hello World!''"]
    first_failure_aborts_session
    [where ps = "[hello_params ! 0]" and p = "hello_params ! 1" and qs = "[hello_params ! 2]"
       and kwargs = "[''id'' \<mapsto> PInt 7]"
       and req = "empty_request \<lparr> request_json := PDict [(''age'', PInt 15)] \<rparr>"
       and e = "ValidationError ''must be larger than the minimum'' ''age'' (AClass TInt)"
       and custom_error_handler = "Some (\<lambda>e. ''handled'')"
       and exn_str = "\<lambda>e. ''age is out of range''"
       and f = "\<lambda>kwargs. ''Hello World!''"]
  by (simp add: hello_params_def validate_def validate_present_def prepare_AClass
      annot_str_simps conforms_def semantic_def plain_binding_def int_range_binding_def
      request_inputs_def empty_request_def)

text \<open>
  Claim C1 on the code: the handler \<open>hello\<close> with the route argument \<open>id = 7\<close>, the body
  \<open>{"age": 42}\<close> and no query string. All three parameters validate and
  \<open>validated_inputs\<close> holds the three values, but line 48 calls \<open>f(**kwargs)\<close>: the
  handler, here returning what it was passed for the three names, receives the route
  argument only.
\<close>

theorem hello_called_without_validated_inputs:
  "validate_each None exn_str
     (request_inputs [''id'' \<mapsto> PInt 7] (empty_request \<lparr> request_json := PDict [(''age'', PInt 42)] \<rparr>))
     hello_params Map.empty
   = Inr [''id'' \<mapsto> PInt 7, ''age'' \<mapsto> PInt 42, ''is_admin'' \<mapsto> PBool False]
   \<and> nested_func None exn_str (\<lambda>kwargs. map kwargs [''id'', ''age'', ''is_admin''])
       hello_params (empty_request \<lparr> request_json := PDict [(''age'', PInt 42)] \<rparr>)
       [''id'' \<mapsto> PInt 7]
   = Return [Some (PInt 7), None, None]"
  by (simp add: nested_func_def hello_params_def validate_def validate_present_def
      prepare_AClass annot_str_simps conforms_def semantic_def plain_binding_def
      int_range_binding_def query_binding_def request_inputs_def empty_request_def)

section \<open>The type-mismatch error (lines 117--131)\<close>






section \<open>Unions (lines 93--105)\<close>

lemma find_Some_list_match:
  assumes "find (\<lambda>m. list_match m v) ms = Some m"
  shows "\<exists>t. m = AList t \<and> m \<in> set ms \<and> list_match m v"
proof -
  from assms have "m \<in> set ms \<and> list_match m v"
    by (auto simp add: find_Some_iff)
  with list_match_AList [of m v] show ?thesis by auto
qed

text \<open>
  Claim C3, as the claim has it, would collapse a union to any list member whose element
  type covers the elements of the raw list. For \<open>Union[List[str], List[int]]\<close> and the
  raw value \<open>[]\<close> the member \<open>List[str]\<close> passes the tests of lines 98--101, and the
  descriptor is \<open>List[int]\<close>: the loop has no \<open>break\<close>, so a later member that passes
  too overwrites the earlier one.
\<close>

theorem union_of_two_lists_counterexample:
  "list_match (AList (AClass TStr)) (PList [])
   \<and> prepare (AUnion [AList (AClass TStr), AList (AClass TInt)]) (PList [])
     = \<lparr> expected_input_type = AList (AClass TInt), expected_input_types = [AClass TInt],
         expected_input_type_str = ''typing.List[int]'', user_inputs = Alias \<rparr>"
  by (simp add: prepare_AUnion list_match_def annot_str_simps)

text \<open>
  Claim C3, amended. For a union and a raw value: when a list member passes the tests of
  lines 98--101 (the raw value is a list and the type of each element is the member's
  argument), the descriptor becomes the last such member in the order of the declaration,
  its argument is the only expected type, the elements of the list are what is checked,
  and every value \<open>validate\<close> returns is a list that the binding's check has accepted;
  when no member passes, the union and all its members as declared stay the expected
  types and the raw value is checked as one value.
\<close>

theorem union_elects_last_list_member:
  "(find (\<lambda>m. list_match m v) (rev ts) = None
      \<longrightarrow> prepare (AUnion ts) v
          = \<lparr> expected_input_type = AUnion ts, expected_input_types = ts,
              expected_input_type_str = annot_str (AUnion ts), user_inputs = Wrapped \<rparr>)
   \<and> (\<forall>m. find (\<lambda>m. list_match m v) (rev ts) = Some m
      \<longrightarrow> (\<exists>t. m = AList t \<and> m \<in> set ts
               \<and> prepare (AUnion ts) v
                 = \<lparr> expected_input_type = AList t, expected_input_types = [t],
                     expected_input_type_str = annot_str (AList t), user_inputs = Alias \<rparr>)
          \<and> (\<forall>p b r. param_annotation p = AUnion ts \<and> validate_present p b v = Inr r
                 \<longrightarrow> pytype r = TList \<and> binding_validate b r = None))"
proof (intro conjI allI impI)
  assume "find (\<lambda>m. list_match m v) (rev ts) = None"
  then show "prepare (AUnion ts) v
          = \<lparr> expected_input_type = AUnion ts, expected_input_types = ts,
              expected_input_type_str = annot_str (AUnion ts), user_inputs = Wrapped \<rparr>"
    by (simp add: prepare_AUnion)
next
  fix m assume m: "find (\<lambda>m. list_match m v) (rev ts) = Some m"
  from find_Some_list_match [OF m] obtain t where t: "m = AList t" "m \<in> set ts"
    by auto
  show "\<exists>t. m = AList t \<and> m \<in> set ts
               \<and> prepare (AUnion ts) v
                 = \<lparr> expected_input_type = AList t, expected_input_types = [t],
                     expected_input_type_str = annot_str (AList t), user_inputs = Alias \<rparr>"
    using m t by (simp add: prepare_AUnion)
next
  fix m p b r
  assume m: "find (\<lambda>m. list_match m v) (rev ts) = Some m"
    and pr: "param_annotation p = AUnion ts \<and> validate_present p b v = Inr r"
  from find_Some_list_match [OF m] obtain t where t: "m = AList t"
    by auto
  have prep: "prepare (AUnion ts) v
      = \<lparr> expected_input_type = AList t, expected_input_types = [t],
          expected_input_type_str = annot_str (AList t), user_inputs = Alias \<rparr>"
    using m t by (simp add: prepare_AUnion)
  from pr have ok: "validate_present p b v = Inr r" and ann: "param_annotation p = AUnion ts"
    by simp_all
  have "param_annotation p \<noteq> AAny" using ann by simp
  from ok show "pytype r = TList"
    unfolding validate_present_not_any [OF \<open>param_annotation p \<noteq> AAny\<close>] ann prep
    by (auto simp add: conforms_def prefix_List_iff semantic_def
        split: sum.splits prod.splits if_splits option.splits exn.splits)
  from ok show "binding_validate b r = None"
    unfolding validate_present_not_any [OF \<open>param_annotation p \<noteq> AAny\<close>] ann prep
    by (auto simp add: conforms_def prefix_List_iff semantic_def
        split: sum.splits prod.splits if_splits option.splits exn.splits)
qed

theorem union_elects_last_list_member_witness:
  "find (\<lambda>m. list_match m (PList [PStr ''al'', PStr ''bo''])) (rev [AList (AClass TStr), AClass TInt])
     = Some (AList (AClass TStr))
   \<and> prepare (AUnion [AList (AClass TStr), AClass TInt]) (PList [PStr ''al'', PStr ''bo''])
     = \<lparr> expected_input_type = AList (AClass TStr), expected_input_types = [AClass TStr],
         expected_input_type_str = ''typing.List[str]'', user_inputs = Alias \<rparr>
   \<and> find (\<lambda>m. list_match m (PInt 5)) (rev [AList (AClass TStr), AClass TInt]) = None
   \<and> prepare (AUnion [AList (AClass TStr), AClass TInt]) (PInt 5)
     = \<lparr> expected_input_type = AUnion [AList (AClass TStr), AClass TInt],
         expected_input_types = [AList (AClass TStr), AClass TInt],
         expected_input_type_str = ''typing.Union[typing.List[str], int]'',
         user_inputs = Wrapped \<rparr>
   \<and> validate_present
       \<lparr> param_name = ''names'', param_annotation = AUnion [AList (AClass TStr), AClass TInt],
         param_default = Some (plain_binding Json PNone) \<rparr>
       (plain_binding Json PNone) (PList [PStr ''al'', PStr ''bo''])
     = Inr (PList [PStr ''al'', PStr ''bo''])"
  using union_elects_last_list_member
      [where v = "PList [PStr ''al'', PStr ''bo'']" and ts = "[AList (AClass TStr), AClass TInt]"]
    union_elects_last_list_member
      [where v = "PInt 5" and ts = "[AList (AClass TStr), AClass TInt]"]
  by (simp add: list_match_def annot_str_simps validate_present_def prepare_AUnion
      plain_binding_def conforms_def semantic_def)

text \<open>
  Claim C7, as the claim has it, would remove \<open>NoneType\<close> from the expected types of a
  union. For \<open>Union[int, str, None]\<close> and the raw value \<open>5\<close> the expected types that
  line 115 passes to \<open>convert\<close> and line 118 checks against are the three members,
  \<open>NoneType\<close> among them.
\<close>

theorem union_candidates_hold_none_counterexample:
  "prepare (AUnion [AClass TInt, AClass TStr, AClass TNone]) (PInt 5)
     = \<lparr> expected_input_type = AUnion [AClass TInt, AClass TStr, AClass TNone],
         expected_input_types = [AClass TInt, AClass TStr, AClass TNone],
         expected_input_type_str = ''typing.Union[int, str, NoneType]'',
         user_inputs = Wrapped \<rparr>
   \<and> AClass TNone \<in> set (expected_input_types
         (prepare (AUnion [AClass TInt, AClass TStr, AClass TNone]) (PInt 5)))"
  by (simp add: prepare_AUnion list_match_def annot_str_simps)

text \<open>
  Claim C7, amended. For a union with \<open>NoneType\<close> among its members the test of line 83
  holds (the parameter is optional), and \<open>NoneType\<close> is not removed: when no list member
  is elected the expected types are the members as declared, \<open>NoneType\<close> included. For
  every annotation other than \<open>typing.Any\<close> the preparation ends in one of three shapes:
  a class with itself as the only expected type, a list with its argument as the only
  expected type and the elements of the input to check, or a union with its members as
  the expected types.
\<close>

theorem union_keeps_null_marker:
  assumes "AClass TNone \<in> set ts"
  shows "none_in_args (AUnion ts)
       \<and> (find (\<lambda>m. list_match m v) (rev ts) = None
            \<longrightarrow> expected_input_types (prepare (AUnion ts) v) = ts
              \<and> AClass TNone \<in> set (expected_input_types (prepare (AUnion ts) v)))
       \<and> (a \<noteq> AAny
            \<longrightarrow> (\<exists>t. prepare a v
                       = \<lparr> expected_input_type = AClass t, expected_input_types = [AClass t],
                           expected_input_type_str = annot_str (AClass t),
                           user_inputs = Wrapped \<rparr>)
              \<or> (\<exists>t. prepare a v
                       = \<lparr> expected_input_type = AList t, expected_input_types = [t],
                           expected_input_type_str = annot_str (AList t),
                           user_inputs = Alias \<rparr>)
              \<or> (\<exists>ms. prepare a v
                       = \<lparr> expected_input_type = AUnion ms, expected_input_types = ms,
                           expected_input_type_str = annot_str (AUnion ms),
                           user_inputs = Wrapped \<rparr>))"
proof (intro conjI impI)
  show "none_in_args (AUnion ts)"
    using assms by (simp add: none_in_args_def)
next
  assume n: "find (\<lambda>m. list_match m v) (rev ts) = None"
  then show "expected_input_types (prepare (AUnion ts) v) = ts"
    by (simp add: prepare_AUnion)
  with assms show "AClass TNone \<in> set (expected_input_types (prepare (AUnion ts) v))"
    by simp
next
  assume "a \<noteq> AAny"
  then show "(\<exists>t. prepare a v
                       = \<lparr> expected_input_type = AClass t, expected_input_types = [AClass t],
                           expected_input_type_str = annot_str (AClass t),
                           user_inputs = Wrapped \<rparr>)
              \<or> (\<exists>t. prepare a v
                       = \<lparr> expected_input_type = AList t, expected_input_types = [t],
                           expected_input_type_str = annot_str (AList t),
                           user_inputs = Alias \<rparr>)
              \<or> (\<exists>ms. prepare a v
                       = \<lparr> expected_input_type = AUnion ms, expected_input_types = ms,
                           expected_input_type_str = annot_str (AUnion ms),
                           user_inputs = Wrapped \<rparr>)"
  proof (cases a)
    case (AClass t)
    then show ?thesis by (simp add: prepare_AClass)
  next
    case AAny
    with \<open>a \<noteq> AAny\<close> show ?thesis by simp
  next
    case (AList t)
    then show ?thesis by (simp add: prepare_AList)
  next
    case (AUnion ms)
    show ?thesis
    proof (cases "find (\<lambda>m. list_match m v) (rev ms)")
      case None
      with AUnion show ?thesis by (simp add: prepare_AUnion)
    next
      case (Some m)
      from find_Some_list_match [OF Some] obtain t where "m = AList t" by auto
      with AUnion Some show ?thesis by (simp add: prepare_AUnion)
    qed
  qed
qed

theorem union_keeps_null_marker_witness:
  "AClass TNone \<in> set [AClass TInt, AClass TStr, AClass TNone]
   \<and> none_in_args (AUnion [AClass TInt, AClass TStr, AClass TNone])
   \<and> find (\<lambda>m. list_match m (PStr ''5'')) (rev [AClass TInt, AClass TStr, AClass TNone]) = None
   \<and> expected_input_types (prepare (AUnion [AClass TInt, AClass TStr, AClass TNone]) (PStr ''5''))
     = [AClass TInt, AClass TStr, AClass TNone]
   \<and> AList (AClass TStr) \<noteq> AAny
   \<and> prepare (AList (AClass TStr)) (PStr ''5'')
     = \<lparr> expected_input_type = AList (AClass TStr), expected_input_types = [AClass TStr],
         expected_input_type_str = ''typing.List[str]'', user_inputs = Alias \<rparr>"
  using union_keeps_null_marker
    [where ts = "[AClass TInt, AClass TStr, AClass TNone]" and v = "PStr ''5''"
       and a = "AList (AClass TStr)"]
  by (simp add: list_match_def annot_str_simps prepare_AList)

end
